theory Spec2Isabelle
  imports Main "HOL-Library.Word" "HOL-Library.Sublist"
begin

section \<open>Errors\<close>

text \<open>
  Go error values. \<open>ErrNotFound\<close> is the sentinel \<open>gocql.ErrNotFound\<close> and
  \<open>ErrNoCookie\<close> the sentinel \<open>http.ErrNoCookie\<close>. \<open>Foreign m\<close> is any
  other error value handed back by a collaborator (the cluster, the gob codec,
  securecookie) with message \<open>m\<close>. \<open>Errorf m\<close> is the value built by a call of
  \<open>fmt.Errorf\<close>: a new error object, so it is equal to no sentinel, whatever
  its message.
\<close>

datatype error = ErrNotFound | ErrNoCookie | Foreign string | Errorf string

text \<open>The method \<open>err.Error()\<close>.\<close>

fun Error :: "error \<Rightarrow> string" where
  "Error ErrNotFound = ''not found''"
| "Error ErrNoCookie = ''http: named cookie not present''"
| "Error (Foreign m) = m"
| "Error (Errorf m) = m"

text \<open>\<open>fmt.Errorf("cassandrastore: %v", err.Error())\<close>, written four times in store.go.\<close>

definition cassandrastore_prefix :: string where
  "cassandrastore_prefix = ''cassandrastore: ''"

definition Errorf_cassandrastore :: "error \<Rightarrow> error" where
  "Errorf_cassandrastore err = Errorf (cassandrastore_prefix @ Error err)"

section \<open>Options objects and the pointers to them\<close>

text \<open>
  \<open>sessions.Options\<close>. The store and every session hold a pointer to an
  Options object (\<open>*sessions.Options\<close>), so the objects live in a heap: a list
  indexed by address. A pointer is \<open>None\<close> (nil) or \<open>Some a\<close>; dereferencing
  nil or an address outside the heap panics, which is the result \<open>None\<close> of
  \<open>deref\<close> and of every operation that dereferences.
\<close>

record Options =
  Path :: string
  Domain :: string
  MaxAge :: int
  Secure :: bool
  HttpOnly :: bool

type_synonym addr = nat
type_synonym heap = "Options list"

definition deref :: "heap \<Rightarrow> addr option \<Rightarrow> Options option" where
  "deref h p = (case p of None \<Rightarrow> None
                | Some a \<Rightarrow> if a < length h then Some (h ! a) else None)"

text \<open>A new object gets the next address; no object is ever freed or moved.\<close>

definition alloc :: "heap \<Rightarrow> Options \<Rightarrow> addr \<times> heap" where
  "alloc h v = (length h, h @ [v])"

text \<open>An assignment through a pointer, \<open>p.Field = x\<close>, as the caller of New may do.\<close>

definition assign :: "heap \<Rightarrow> addr \<Rightarrow> Options \<Rightarrow> heap" where
  "assign h a v = h[a := v]"

text \<open>The zero value that \<open>new(Options)\<close> allocates.\<close>

definition zero_Options :: Options where
  "zero_Options = \<lparr>Path = '''', Domain = '''', MaxAge = 0, Secure = False, HttpOnly = False\<rparr>"

section \<open>Collaborators\<close>

type_synonym bytes = "8 word list"

subsection \<open>securecookie\<close>

text \<open>
  The field \<open>Codecs\<close> of the store is only ever handed to
  \<open>securecookie.EncodeMulti\<close> and \<open>securecookie.DecodeMulti\<close>, so it is modelled
  by what these two calls compute on it: from the session name and the
  identifier to the cookie value, and from the session name and the cookie value
  back to the identifier, each with an error result. \<open>DecodeMulti\<close> writes its
  destination only when it succeeds.
\<close>

record Codecs =
  EncodeMulti :: "string \<Rightarrow> string \<Rightarrow> error + string"
  DecodeMulti :: "string \<Rightarrow> string \<Rightarrow> error + string"

subsection \<open>encoding/gob\<close>

text \<open>
  The payload codec. \<open>gob_Decode g vals m\<close> decodes into the map \<open>m\<close> the
  session already holds and returns the error together with the map as the
  decoder left it.
\<close>

record ('k, 'v) gob =
  gob_Encode :: "('k \<rightharpoonup> 'v) \<Rightarrow> error + bytes"
  gob_Decode :: "bytes \<Rightarrow> ('k \<rightharpoonup> 'v) \<Rightarrow> error option \<times> ('k \<rightharpoonup> 'v)"

subsection \<open>The cluster\<close>

text \<open>
  What the store asks of gocql: \<open>CreateSession\<close>, one \<open>SELECT ... Scan\<close>, one
  \<open>INSERT ... Exec\<close>, \<open>Close\<close>. The cluster keeps its rows by table name and
  identifier, each with the time-to-live it was written with, and a log of the
  calls made on it. The three error fields say whether a connection attempt, a
  read or a write fails for a reason of the cluster's own.
\<close>

datatype db_op =
    OpCreateSession
  | OpClose
  | OpScan string string
  | OpExec string string bytes int

record cluster =
  connect_err :: "error option"
  scan_err :: "error option"
  exec_err :: "error option"
  rows :: "string \<times> string \<rightharpoonup> bytes \<times> int"
  ops :: "db_op list"

definition CreateSession :: "cluster \<Rightarrow> error option \<times> cluster" where
  "CreateSession d = (connect_err d, d\<lparr>ops := ops d @ [OpCreateSession]\<rparr>)"

definition Close :: "cluster \<Rightarrow> cluster" where
  "Close d = d\<lparr>ops := ops d @ [OpClose]\<rparr>"

text \<open>
  \<open>db.Query(q, id).Scan(&vals)\<close> for the query text \<open>q\<close> that selects from
  table \<open>tn\<close>: a missing row is \<open>gocql.ErrNotFound\<close>.
\<close>

definition Scan :: "cluster \<Rightarrow> string \<Rightarrow> string \<Rightarrow> string \<Rightarrow> (error + bytes) \<times> cluster" where
  "Scan d q tn ident =
     (let d' = d\<lparr>ops := ops d @ [OpScan q ident]\<rparr> in
      case scan_err d of
        Some err \<Rightarrow> (Inl err, d')
      | None \<Rightarrow>
          (case rows d (tn, ident) of
             None \<Rightarrow> (Inl ErrNotFound, d')
           | Some (vals, ttl) \<Rightarrow> (Inr vals, d')))"

text \<open>\<open>db.Query(q, id, vals, ttl).Exec()\<close> for the query text \<open>q\<close> that inserts into table \<open>tn\<close>.\<close>

definition Exec :: "cluster \<Rightarrow> string \<Rightarrow> string \<Rightarrow> string \<Rightarrow> bytes \<Rightarrow> int \<Rightarrow> error option \<times> cluster" where
  "Exec d q tn ident vals ttl =
     (let d' = d\<lparr>ops := ops d @ [OpExec q ident vals ttl]\<rparr> in
      case exec_err d of
        Some err \<Rightarrow> (Some err, d')
      | None \<Rightarrow> (None, d'\<lparr>rows := (rows d)((tn, ident) \<mapsto> (vals, ttl))\<rparr>))"

subsection \<open>net/http\<close>

text \<open>
  A request is the cookies it carries, name and value, in header order;
  \<open>r.Cookie(name)\<close> is the first one of that name or \<open>http.ErrNoCookie\<close>.
\<close>

record Request =
  Cookies :: "(string \<times> string) list"

definition Request_Cookie :: "Request \<Rightarrow> string \<Rightarrow> error + string" where
  "Request_Cookie r n = (case map_of (Cookies r) n of
                           None \<Rightarrow> Inl ErrNoCookie
                         | Some v \<Rightarrow> Inr v)"

text \<open>
  \<open>http.Cookie\<close>, without its expiry date (a wall-clock time), and
  \<open>sessions.NewCookie\<close>, which copies the attributes of the options it is given.
  The response is the list of cookies handed to \<open>http.SetCookie\<close>.
\<close>

record http_Cookie =
  Name :: string
  Value :: string
  Path :: string
  Domain :: string
  MaxAge :: int
  Secure :: bool
  HttpOnly :: bool

definition NewCookie :: "string \<Rightarrow> string \<Rightarrow> Options \<Rightarrow> http_Cookie" where
  "NewCookie n v options =
     \<lparr>Name = n, Value = v, Path = Options.Path options, Domain = Options.Domain options,
      MaxAge = Options.MaxAge options, Secure = Options.Secure options,
      HttpOnly = Options.HttpOnly options\<rparr>"

type_synonym ResponseWriter = "http_Cookie list"

definition SetCookie :: "ResponseWriter \<Rightarrow> http_Cookie \<Rightarrow> ResponseWriter" where
  "SetCookie w cookie = w @ [cookie]"

subsection \<open>encoding/base32 and strings\<close>

text \<open>
  \<open>base32.StdEncoding.EncodeToString\<close>: the bits of the input, most
  significant first, are cut into groups of five, the last group filled up
  with zero bits; each group selects a character of the alphabet, and the
  output is filled up with \<open>=\<close> to a multiple of eight characters.
\<close>

definition encodeStd :: string where
  "encodeStd = ''ABCDEFGHIJKLMNOPQRSTUVWXYZ234567''"

definition byte_bits :: "8 word \<Rightarrow> bool list" where
  "byte_bits b = map (bit b) [7, 6, 5, 4, 3, 2, 1, 0]"

definition bits_val :: "bool list \<Rightarrow> nat" where
  "bits_val bs = foldl (\<lambda>acc b. 2 * acc + (if b then 1 else 0)) 0 bs"

fun groups5 :: "bool list \<Rightarrow> bool list list" where
  "groups5 [] = []"
| "groups5 (b # bs) = take 5 (b # bs @ replicate 4 False) # groups5 (drop 4 bs)"

definition base32_body :: "bytes \<Rightarrow> string" where
  "base32_body src = map (\<lambda>g. encodeStd ! bits_val g) (groups5 (concat (map byte_bits src)))"

definition EncodeToString :: "bytes \<Rightarrow> string" where
  "EncodeToString src =
     (let body = base32_body src in
      body @ replicate ((8 - length body mod 8) mod 8) CHR ''='')"

text \<open>\<open>strings.TrimRight(s, cutset)\<close>: drop every trailing character that is in \<open>cutset\<close>.\<close>

definition TrimRight :: "string \<Rightarrow> string \<Rightarrow> string" where
  "TrimRight s cutset = rev (dropWhile (\<lambda>ch. ch \<in> set cutset) (rev s))"

section \<open>The world outside the store\<close>

text \<open>
  The heap of Options objects, the cluster, and the bytes the system's entropy
  source still has to give. \<open>securecookie.GenerateRandomKey(n)\<close> reads \<open>n\<close>
  bytes from that source and returns nil, the empty slice, when it cannot.
\<close>

record world =
  heap :: heap
  db :: cluster
  entropy :: bytes

definition GenerateRandomKey :: "nat \<Rightarrow> world \<Rightarrow> bytes \<times> world" where
  "GenerateRandomKey n w =
     (if n \<le> length (entropy w)
      then (take n (entropy w), w\<lparr>entropy := drop n (entropy w)\<rparr>)
      else ([], w\<lparr>entropy := []\<rparr>))"

section \<open>The store and its sessions\<close>

text \<open>
  \<open>CassandraStore\<close>, as declared in store.go. The field \<open>ClusterConfig\<close> points
  to the configuration of the one cluster of the world and is left out. The
  method \<open>Get\<close> only asks the request's registry of gorilla/sessions, which
  calls New for a name it has not seen; it is not modelled.
\<close>

record CassandraStore =
  Codecs :: Codecs
  Options :: "addr option"
  TableName :: string

text \<open>
  \<open>sessions.Session\<close>: identifier, payload, pointer to its options, the flag
  \<open>IsNew\<close> and the name that \<open>s.Name()\<close> returns. \<open>sessions.NewSession\<close> gives
  an empty identifier, an empty payload and freshly allocated zero options.
\<close>

record ('k, 'v) Session =
  ID :: string
  Values :: "'k \<rightharpoonup> 'v"
  Options :: "addr option"
  IsNew :: bool
  Name :: string

definition NewSession :: "string \<Rightarrow> world \<Rightarrow> ('k, 'v) Session \<times> world" where
  "NewSession n w =
     (case alloc (heap w) zero_Options of
        (a, h) \<Rightarrow>
          (\<lparr>ID = '''', Values = Map.empty, Options = Some a, IsNew = False, Name = n\<rparr>,
           w\<lparr>heap := h\<rparr>))"

subsection \<open>NewCassandraStore\<close>

text \<open>
  The codecs are those \<open>securecookie.CodecsFromPairs\<close> builds from the key
  pairs; the constructor returns no error.
\<close>

definition NewCassandraStore :: "Codecs \<Rightarrow> string \<Rightarrow> world \<Rightarrow> (CassandraStore \<times> error option) \<times> world" where
  "NewCassandraStore codecs tableName w =
     (let tableName' = (if tableName = '''' then ''sessions'' else tableName) in
      case alloc (heap w) \<lparr>Options.Path = ''/'', Domain = '''', MaxAge = 2592000,
                           Secure = False, HttpOnly = False\<rparr> of
        (a, h) \<Rightarrow>
          ((\<lparr>Codecs = codecs, Options = Some a, TableName = tableName'\<rparr>, None),
           w\<lparr>heap := h\<rparr>))"

subsection \<open>load and save\<close>

definition select_query :: "string \<Rightarrow> string" where
  "select_query tn = ''SELECT values FROM '' @ tn @ '' WHERE id = ?''"

definition insert_query :: "string \<Rightarrow> string" where
  "insert_query tn = ''INSERT INTO '' @ tn @ '' (id, values) VALUES (?, ?) USING TTL ?''"

definition load :: "('k, 'v) gob \<Rightarrow> CassandraStore \<Rightarrow> ('k, 'v) Session \<Rightarrow> world
    \<Rightarrow> error option \<times> ('k, 'v) Session \<times> world" where
  "load g c s w =
     (case CreateSession (db w) of
        (Some err, d1) \<Rightarrow> (Some (Errorf_cassandrastore err), s, w\<lparr>db := d1\<rparr>)
      | (None, d1) \<Rightarrow>
          (case Scan d1 (select_query (TableName c)) (TableName c) (ID s) of
             (Inl err, d2) \<Rightarrow> (Some (Errorf_cassandrastore err), s, w\<lparr>db := Close d2\<rparr>)
           | (Inr vals, d2) \<Rightarrow>
               (case gob_Decode g vals (Values s) of
                  (err, m) \<Rightarrow> (err, s\<lparr>Values := m\<rparr>, w\<lparr>db := Close d2\<rparr>))))"

text \<open>\<open>save\<close> dereferences \<open>s.Options\<close> for the time-to-live; \<open>None\<close> is the panic.\<close>

definition save :: "('k, 'v) gob \<Rightarrow> CassandraStore \<Rightarrow> ('k, 'v) Session \<Rightarrow> world
    \<Rightarrow> (error option \<times> world) option" where
  "save g c s w =
     (case CreateSession (db w) of
        (Some err, d1) \<Rightarrow> Some (Some (Errorf_cassandrastore err), w\<lparr>db := d1\<rparr>)
      | (None, d1) \<Rightarrow>
          (case gob_Encode g (Values s) of
             Inl err \<Rightarrow> Some (Some (Errorf_cassandrastore err), w\<lparr>db := Close d1\<rparr>)
           | Inr buf \<Rightarrow>
               (case deref (heap w) (Session.Options s) of
                  None \<Rightarrow> None
                | Some options \<Rightarrow>
                    (case Exec d1 (insert_query (TableName c)) (TableName c) (ID s) buf
                            (Options.MaxAge options) of
                       (err, d2) \<Rightarrow> Some (err, w\<lparr>db := Close d2\<rparr>)))))"

subsection \<open>New\<close>

text \<open>
  The result is \<open>None\<close> when the call panics (the store's \<open>Options\<close> pointer
  is nil), and otherwise the returned pair of session and error with the world
  the call leaves.
\<close>

definition New :: "('k, 'v) gob \<Rightarrow> CassandraStore \<Rightarrow> Request \<Rightarrow> string \<Rightarrow> world
    \<Rightarrow> ((('k, 'v) Session \<times> error option) \<times> world) option" where
  "New g c r n w =
     (case NewSession n w of
        (s0, w0) \<Rightarrow>
          (case deref (heap w0) (CassandraStore.Options c) of
             None \<Rightarrow> None
           | Some opts \<Rightarrow>
               (case alloc (heap w0) opts of
                  (a, h) \<Rightarrow>
                    (let s1 = s0\<lparr>Session.Options := Some a, IsNew := True\<rparr>;
                         w1 = w0\<lparr>heap := h\<rparr>
                     in case Request_Cookie r n of
                          Inl err \<Rightarrow> Some ((s1, None), w1)
                        | Inr cookie_value \<Rightarrow>
                            (case DecodeMulti (Codecs c) n cookie_value of
                               Inl e \<Rightarrow> Some ((s1, None), w1)
                             | Inr ident \<Rightarrow>
                                 (case load g c (s1\<lparr>ID := ident\<rparr>) w1 of
                                    (errLoad, s2, w2) \<Rightarrow>
                                      (if errLoad \<noteq> None \<and> errLoad \<noteq> Some ErrNotFound
                                       then Some ((s2\<lparr>IsNew := False\<rparr>, None), w2)
                                       else Some ((s2, None), w2))))))))"

subsection \<open>Save\<close>

text \<open>
  The result is \<open>None\<close> when the call panics (a nil \<open>Options\<close> pointer), and
  otherwise the returned error, the session and the response as the call leaves
  them, and the world. The request is not used.
\<close>

definition Save :: "('k, 'v) gob \<Rightarrow> CassandraStore \<Rightarrow> Request \<Rightarrow> ResponseWriter
    \<Rightarrow> ('k, 'v) Session \<Rightarrow> world
    \<Rightarrow> (error option \<times> ('k, 'v) Session \<times> ResponseWriter \<times> world) option" where
  "Save g c r rw s w =
     (case deref (heap w) (Session.Options s) of
        None \<Rightarrow> None
      | Some sopts \<Rightarrow>
          if Options.MaxAge sopts < 0
          then Some (None, s, SetCookie rw (NewCookie (Session.Name s) '''' sopts), w)
          else
            (case (if ID s = ''''
                   then (case GenerateRandomKey 32 w of
                           (k, w') \<Rightarrow> (s\<lparr>ID := TrimRight (EncodeToString k) ''=''\<rparr>, w'))
                   else (s, w)) of
               (s1, w1) \<Rightarrow>
                 (case save g c s1 w1 of
                    None \<Rightarrow> None
                  | Some (Some err, w2) \<Rightarrow> Some (Some (Errorf_cassandrastore err), s1, rw, w2)
                  | Some (None, w2) \<Rightarrow>
                      (case EncodeMulti (Codecs c) (Session.Name s1) (ID s1) of
                         Inl err \<Rightarrow> Some (Some (Errorf_cassandrastore err), s1, rw, w2)
                       | Inr encoded \<Rightarrow>
                           (case deref (heap w2) (CassandraStore.Options c) of
                              None \<Rightarrow> None
                            | Some copts \<Rightarrow>
                                Some (None, s1,
                                      SetCookie rw (NewCookie (Session.Name s1) encoded copts),
                                      w2))))))"

section \<open>Notions used in the statements\<close>

text \<open>
  The identifier a request carries for a session name: the value of the cookie
  of that name, decoded by the store's codecs; \<open>None\<close> when there is no such
  cookie or it does not decode. These are the two tests New makes before it
  loads.
\<close>

definition cookie_ident :: "CassandraStore \<Rightarrow> Request \<Rightarrow> string \<Rightarrow> string option" where
  "cookie_ident c r n =
     (case Request_Cookie r n of
        Inl err \<Rightarrow> None
      | Inr cookie_value \<Rightarrow>
          (case DecodeMulti (Codecs c) n cookie_value of
             Inl e \<Rightarrow> None
           | Inr ident \<Rightarrow> Some ident))"

text \<open>
  The identifier Save writes under: the session's own, or the one generated
  from the next 32 bytes of entropy when the session has none.
\<close>

definition Save_ident :: "('k, 'v) Session \<Rightarrow> world \<Rightarrow> string" where
  "Save_ident s w =
     (if ID s = '''' then TrimRight (EncodeToString (fst (GenerateRandomKey 32 w))) ''=''
      else ID s)"

text \<open>
  The first step of Save once the max-age is known not to be negative: the
  session and the world after the identifier has been generated, if it had to be.
\<close>

definition Save_prepare :: "('k, 'v) Session \<Rightarrow> world \<Rightarrow> ('k, 'v) Session \<times> world" where
  "Save_prepare s w =
     (if ID s = ''''
      then (case GenerateRandomKey 32 w of
              (k, w') \<Rightarrow> (s\<lparr>ID := TrimRight (EncodeToString k) ''=''\<rparr>, w'))
      else (s, w))"

text \<open>
  The storage write of \<open>save\<close> fails when no connection is made, the payload
  does not serialise or the insert is refused; the identifier encoding fails
  when \<open>EncodeMulti\<close> returns an error.
\<close>

definition write_fails :: "('k, 'v) gob \<Rightarrow> ('k, 'v) Session \<Rightarrow> world \<Rightarrow> bool" where
  "write_fails g s w =
     (connect_err (db w) \<noteq> None \<or> isl (gob_Encode g (Values s)) \<or> exec_err (db w) \<noteq> None)"

definition encoding_fails :: "CassandraStore \<Rightarrow> ('k, 'v) Session \<Rightarrow> world \<Rightarrow> bool" where
  "encoding_fails c s w = isl (EncodeMulti (Codecs c) (Session.Name s) (Save_ident s w))"

text \<open>The identifiers of the inserts in a log of cluster calls, in order.\<close>

fun written_ids :: "db_op list \<Rightarrow> string list" where
  "written_ids [] = []"
| "written_ids (OpExec q ident vals ttl # l) = ident # written_ids l"
| "written_ids (x # l) = written_ids l"

section \<open>A concrete store, cluster and sessions\<close>

text \<open>
  Codecs that write the cookie value as session name, a bar, identifier, and
  accept nothing else; a payload codec that knows one payload, the map from
  \<open>user\<close> to \<open>alice\<close>, stored as the single byte 1.
\<close>

definition ex_codecs :: Codecs where
  "ex_codecs =
     \<lparr>EncodeMulti = (\<lambda>n v. Inr (n @ ''|'' @ v)),
      DecodeMulti = (\<lambda>n v. if take (Suc (length n)) v = n @ ''|''
                            then Inr (drop (Suc (length n)) v)
                            else Inl (Foreign ''securecookie: the value is not valid''))\<rparr>"

definition ex_gob :: "(string, string) gob" where
  "ex_gob =
     \<lparr>gob_Encode = (\<lambda>m. if m ''user'' = Some ''alice'' then Inr [1]
                         else Inl (Foreign ''gob: type not registered'')),
      gob_Decode = (\<lambda>vals m. if vals = [1] then (None, m(''user'' \<mapsto> ''alice''))
                              else (Some (Foreign ''unexpected EOF''), m))\<rparr>"

text \<open>A cluster without faults that holds one row, for identifier \<open>abc\<close>, in table \<open>sessions\<close>.\<close>

definition ex_cluster :: cluster where
  "ex_cluster =
     \<lparr>connect_err = None, scan_err = None, exec_err = None,
      rows = [(''sessions'', ''abc'') \<mapsto> ([1], 3600)], ops = []\<rparr>"

text \<open>The store NewCassandraStore builds with an empty table name, and the world it leaves.\<close>

definition ex_world0 :: world where
  "ex_world0 = \<lparr>heap = [], db = ex_cluster, entropy = replicate 64 0\<rparr>"

definition ex_store :: CassandraStore where
  "ex_store = fst (fst (NewCassandraStore ex_codecs '''' ex_world0))"

definition ex_world :: world where
  "ex_world = snd (NewCassandraStore ex_codecs '''' ex_world0)"

text \<open>Requests: without a cookie, with the cookie of identifier \<open>abc\<close>, of the
  unknown identifier \<open>xyz\<close>, and with a cookie that does not decode.\<close>

definition ex_request_none :: Request where
  "ex_request_none = \<lparr>Cookies = []\<rparr>"

definition ex_request_abc :: Request where
  "ex_request_abc = \<lparr>Cookies = [(''sid'', ''sid|abc'')]\<rparr>"

definition ex_request_xyz :: Request where
  "ex_request_xyz = \<lparr>Cookies = [(''sid'', ''sid|xyz'')]\<rparr>"

definition ex_request_bad :: Request where
  "ex_request_bad = \<lparr>Cookies = [(''sid'', ''sie|abc'')]\<rparr>"

text \<open>
  A session of the store whose application has set its own options, path
  \<open>/app\<close> and max-age 3600 or -1, in the Options object at address 1.
\<close>

definition ex_session :: "(string, string) Session" where
  "ex_session =
     \<lparr>ID = ''abc'', Values = [''user'' \<mapsto> ''alice''], Options = Some 1, IsNew = False,
      Name = ''sid''\<rparr>"

definition ex_world_own :: "int \<Rightarrow> world" where
  "ex_world_own age =
     ex_world\<lparr>heap := heap ex_world @
        [\<lparr>Options.Path = ''/app'', Domain = '''', MaxAge = age, Secure = False, HttpOnly = False\<rparr>]\<rparr>"

text \<open>The default options of that store, at address 0.\<close>

definition ex_defaults :: Options where
  "ex_defaults =
     \<lparr>Options.Path = ''/'', Domain = '''', MaxAge = 2592000, Secure = False, HttpOnly = False\<rparr>"

text \<open>The same worlds with a cluster that accepts no connection, and with one that refuses every insert.\<close>

definition ex_world_down :: world where
  "ex_world_down =
     ex_world\<lparr>db := (db ex_world)\<lparr>connect_err := Some (Foreign ''gocql: unable to create session'')\<rparr>\<rparr>"

definition ex_world_refusing :: world where
  "ex_world_refusing =
     (ex_world_own 3600)\<lparr>db := (db ex_world)\<lparr>exec_err := Some (Foreign ''gocql: no hosts available'')\<rparr>\<rparr>"

text \<open>The session before its first save: no identifier yet.\<close>

definition ex_session_fresh :: "(string, string) Session" where
  "ex_session_fresh = ex_session\<lparr>ID := ''''\<rparr>"

section \<open>Basic facts\<close>

lemmas ex_defs =
  ex_store_def ex_world_def ex_world0_def ex_cluster_def ex_gob_def ex_codecs_def
  ex_request_none_def ex_request_abc_def ex_request_xyz_def ex_request_bad_def
  ex_session_def ex_world_own_def ex_defaults_def ex_world_down_def ex_world_refusing_def
  ex_session_fresh_def

lemmas op_defs =
  New_def Save_def load_def save_def NewSession_def NewCassandraStore_def alloc_def deref_def
  Request_Cookie_def CreateSession_def Scan_def Exec_def Close_def Errorf_cassandrastore_def
  cassandrastore_prefix_def NewCookie_def SetCookie_def zero_Options_def select_query_def
  insert_query_def

lemma deref_append: "deref h p = Some v \<Longrightarrow> deref (h @ xs) p = Some v"
  by (auto simp: deref_def nth_append split: option.splits if_splits)

lemma prefix_Errorf: "prefix cassandrastore_prefix (Error (Errorf_cassandrastore e))"
  by (simp add: Errorf_cassandrastore_def)

lemma ex_store_defaults: "deref (heap ex_world) (CassandraStore.Options ex_store) = Some ex_defaults"
  by (simp add: ex_defs op_defs)

subsection \<open>Save, step by step\<close>

lemma Save_prepare_props:
  "Save_prepare s w = (s1, w1) \<Longrightarrow>
     ID s1 = Save_ident s w \<and> Values s1 = Values s \<and>
     Session.Options s1 = Session.Options s \<and> Session.Name s1 = Session.Name s \<and>
     IsNew s1 = IsNew s \<and> heap w1 = heap w \<and> db w1 = db w"
  by (auto simp: Save_prepare_def Save_ident_def GenerateRandomKey_def split: if_splits)

lemma Save_unfold:
  "Save g c r rw s w =
     (case deref (heap w) (Session.Options s) of
        None \<Rightarrow> None
      | Some sopts \<Rightarrow>
          if Options.MaxAge sopts < 0
          then Some (None, s, SetCookie rw (NewCookie (Session.Name s) '''' sopts), w)
          else
            (case Save_prepare s w of
               (s1, w1) \<Rightarrow>
                 (case save g c s1 w1 of
                    None \<Rightarrow> None
                  | Some (Some err, w2) \<Rightarrow> Some (Some (Errorf_cassandrastore err), s1, rw, w2)
                  | Some (None, w2) \<Rightarrow>
                      (case EncodeMulti (Codecs c) (Session.Name s1) (ID s1) of
                         Inl err \<Rightarrow> Some (Some (Errorf_cassandrastore err), s1, rw, w2)
                       | Inr encoded \<Rightarrow>
                           (case deref (heap w2) (CassandraStore.Options c) of
                              None \<Rightarrow> None
                            | Some copts \<Rightarrow>
                                Some (None, s1,
                                      SetCookie rw (NewCookie (Session.Name s1) encoded copts),
                                      w2))))))"
  unfolding Save_def Save_prepare_def by (rule refl)

lemma save_fails:
  assumes "deref (heap w) (Session.Options s) = Some sopts" and "write_fails g s w"
  shows "\<exists>err w'. save g c s w = Some (Some err, w')"
  using assms
  by (auto simp: save_def write_fails_def CreateSession_def Exec_def Let_def isl_def
      split: option.splits sum.splits)

text \<open>The three faults of \<open>write_fails\<close> are exactly the cases in which \<open>save\<close> returns an error.\<close>

lemma save_fails_iff:
  assumes "deref (heap w) (Session.Options s) = Some sopts"
  shows "write_fails g s w \<longleftrightarrow> (\<exists>err w'. save g c s w = Some (Some err, w'))"
  using assms
  by (auto simp: save_def write_fails_def CreateSession_def Exec_def Let_def isl_def
      split: option.splits sum.splits)

lemma save_total:
  assumes "deref (heap w) (Session.Options s) = Some sopts"
  shows "\<exists>e w'. save g c s w = Some (e, w')"
  using assms
  by (auto simp: save_def CreateSession_def Exec_def Let_def split: option.splits sum.splits)

section \<open>New: cookies that do not decode\<close>

text \<open>
  Claim C8. When the request has no cookie of the session's name, or the
  cookie's value fails the codecs' decoding (malformed or tampered with), New
  returns a fresh session, flagged new, without identifier and with an empty
  payload, together with a nil error; the cluster is not even contacted. The
  store's Options pointer is taken to be valid, as NewCassandraStore leaves it.
\<close>

theorem New_decode_failure:
  assumes "deref (heap w) (CassandraStore.Options c) = Some dflt"
      and "cookie_ident c r n = None"
  shows "\<exists>s w'. New g c r n w = Some ((s, None), w') \<and> IsNew s \<and> ID s = '''' \<and>
           Values s = Map.empty \<and> db w' = db w"
proof -
  have d: "deref (heap w @ [zero_Options]) (CassandraStore.Options c) = Some dflt"
    using assms(1) by (rule deref_append)
  show ?thesis
    using assms(2) d
    by (auto simp: New_def NewSession_def alloc_def cookie_ident_def Let_def
        split: sum.splits)
qed

theorem New_decode_failure_witness:
  "deref (heap ex_world) (CassandraStore.Options ex_store) = Some ex_defaults \<and>
   cookie_ident ex_store ex_request_bad ''sid'' = None \<and>
   (\<exists>s w'. New ex_gob ex_store ex_request_bad ''sid'' ex_world = Some ((s, None), w') \<and>
            IsNew s \<and> ID s = '''' \<and> Values s = Map.empty \<and> db w' = db ex_world)"
proof -
  have h2: "cookie_ident ex_store ex_request_bad ''sid'' = None"
    by (simp add: cookie_ident_def ex_defs op_defs)
  from New_decode_failure [OF ex_store_defaults h2, of ex_gob] ex_store_defaults h2
  show ?thesis by blast
qed

section \<open>New: never an error\<close>

text \<open>
  Claim C10. For every request, session name, payload codec and state of the
  cluster, New returns a session and a nil error: whatever load reports is
  dropped. The store's Options pointer is taken to be valid, as
  NewCassandraStore leaves it; with a nil pointer the first statements of New
  panic.
\<close>

theorem New_never_errors:
  assumes "deref (heap w) (CassandraStore.Options c) = Some dflt"
  shows "\<exists>s w'. New g c r n w = Some ((s, None), w')"
proof -
  have d: "deref (heap w @ [zero_Options]) (CassandraStore.Options c) = Some dflt"
    using assms(1) by (rule deref_append)
  show ?thesis
    using d
    by (auto simp: New_def NewSession_def alloc_def Let_def split: sum.splits prod.splits)
qed

theorem New_never_errors_witness:
  "deref (heap ex_world_down) (CassandraStore.Options ex_store) = Some ex_defaults \<and>
   (\<exists>s w'. New ex_gob ex_store ex_request_abc ''sid'' ex_world_down = Some ((s, None), w'))"
proof -
  have h1: "deref (heap ex_world_down) (CassandraStore.Options ex_store) = Some ex_defaults"
    by (simp add: ex_defs op_defs)
  from New_never_errors [OF h1, of ex_gob ex_request_abc "''sid''"] h1
  show ?thesis by blast
qed

text \<open>The hypothesis is needed: a store whose \<open>Options\<close> pointer is nil makes New panic.\<close>

lemma New_nil_Options:
  "CassandraStore.Options c = None \<Longrightarrow> New g c r n w = None"
  by (simp add: New_def NewSession_def alloc_def deref_def)

section \<open>Save: negative max-age\<close>

text \<open>
  Claim C4. When the session's own max-age is negative, Save hands one cookie
  to the response, of the session's name, with the empty value and that
  negative max-age, and returns nil. The world it leaves is the world it found:
  no call reaches the cluster, so no row is written or deleted.
\<close>

theorem Save_negative_MaxAge:
  assumes "deref (heap w) (Session.Options s) = Some sopts"
      and "Options.MaxAge sopts < 0"
  shows "\<exists>cookie. Save g c r rw s w = Some (None, s, rw @ [cookie], w) \<and>
           http_Cookie.Name cookie = Session.Name s \<and> Value cookie = '''' \<and>
           http_Cookie.Path cookie = Options.Path sopts \<and>
           http_Cookie.MaxAge cookie = Options.MaxAge sopts \<and> http_Cookie.MaxAge cookie < 0"
  using assms by (simp add: Save_def SetCookie_def NewCookie_def)

theorem Save_negative_MaxAge_witness:
  "deref (heap (ex_world_own (- 1))) (Session.Options ex_session) =
     Some (ex_defaults\<lparr>Options.Path := ''/app'', Options.MaxAge := - 1\<rparr>) \<and>
   (\<exists>cookie. Save ex_gob ex_store ex_request_abc [] ex_session (ex_world_own (- 1)) =
        Some (None, ex_session, [cookie], ex_world_own (- 1)) \<and>
      Value cookie = '''' \<and> http_Cookie.MaxAge cookie = - 1)"
proof -
  have h1: "deref (heap (ex_world_own (- 1))) (Session.Options ex_session) =
     Some (ex_defaults\<lparr>Options.Path := ''/app'', Options.MaxAge := - 1\<rparr>)"
    by (simp add: ex_defs op_defs)
  have h2: "Options.MaxAge (ex_defaults\<lparr>Options.Path := ''/app'', Options.MaxAge := - 1\<rparr>) < 0"
    by simp
  from Save_negative_MaxAge [OF h1 h2, of ex_gob ex_store ex_request_abc "[]"] h1
  show ?thesis by auto
qed

section \<open>Save: failures\<close>

text \<open>
  Claim C6. When the session's max-age is not negative and the storage write
  fails (no connection, a payload that does not serialise, a refused insert)
  or the encoding of the identifier fails, Save returns an error whose message
  starts with the prefix \<open>cassandrastore: \<close>, and the response holds the cookies
  it held before.
\<close>

theorem Save_failure_sets_no_cookie:
  assumes opts: "deref (heap w) (Session.Options s) = Some sopts"
      and age: "0 \<le> Options.MaxAge sopts"
      and fails: "write_fails g s w \<or> encoding_fails c s w"
  shows "\<exists>err s' w'. Save g c r rw s w = Some (Some err, s', rw, w') \<and>
           prefix cassandrastore_prefix (Error err)"
proof -
  obtain s1 w1 where p: "Save_prepare s w = (s1, w1)"
    by (cases "Save_prepare s w")
  note pp = Save_prepare_props [OF p]
  have opts1: "deref (heap w1) (Session.Options s1) = Some sopts"
    using opts pp by simp
  obtain e w2 where sv: "save g c s1 w1 = Some (e, w2)"
    using save_total [OF opts1] by blast
  show ?thesis
  proof (cases e)
    case (Some err)
    then show ?thesis
      using opts age p sv by (simp add: Save_unfold prefix_Errorf)
  next
    case None
    have "\<not> write_fails g s1 w1"
      using save_fails [OF opts1, of g c] sv None by auto
    then have "\<not> write_fails g s w"
      using pp by (simp add: write_fails_def)
    with fails have "encoding_fails c s w" by simp
    then obtain err where "EncodeMulti (Codecs c) (Session.Name s1) (ID s1) = Inl err"
      using pp by (auto simp: encoding_fails_def isl_def)
    then show ?thesis
      using opts age p sv None by (simp add: Save_unfold prefix_Errorf)
  qed
qed

theorem Save_failure_sets_no_cookie_witness:
  "deref (heap ex_world_refusing) (Session.Options ex_session) =
     Some (ex_defaults\<lparr>Options.Path := ''/app'', Options.MaxAge := 3600\<rparr>) \<and>
   write_fails ex_gob ex_session ex_world_refusing \<and>
   (\<exists>err s' w'. Save ex_gob ex_store ex_request_abc [] ex_session ex_world_refusing =
        Some (Some err, s', [], w') \<and> prefix cassandrastore_prefix (Error err))"
proof -
  have h1: "deref (heap ex_world_refusing) (Session.Options ex_session) =
     Some (ex_defaults\<lparr>Options.Path := ''/app'', Options.MaxAge := 3600\<rparr>)"
    by (simp add: ex_defs op_defs)
  have h2: "0 \<le> Options.MaxAge (ex_defaults\<lparr>Options.Path := ''/app'', Options.MaxAge := 3600\<rparr>)"
    by simp
  have h3: "write_fails ex_gob ex_session ex_world_refusing"
    by (simp add: write_fails_def ex_defs op_defs)
  from Save_failure_sets_no_cookie [OF h1 h2 disjI1 [OF h3], of ex_store ex_request_abc "[]"] h1 h3
  show ?thesis by blast
qed

section \<open>New: the session's options\<close>

lemma load_frame:
  "load g c s w = (e, s', w') \<Longrightarrow>
     heap w' = heap w \<and> Session.Options s' = Session.Options s"
  by (auto simp: load_def CreateSession_def Scan_def Close_def Let_def
      split: option.splits sum.splits prod.splits)

text \<open>
  What every call of New does to the heap: two objects are allocated, the zero
  options of \<open>sessions.NewSession\<close> and, behind it, the copy \<open>opts\<close> of the
  store's defaults, to which the session points.
\<close>

lemma New_result:
  assumes "deref (heap w) (CassandraStore.Options c) = Some dflt"
  shows "\<exists>s w'. New g c r n w = Some ((s, None), w') \<and>
           Session.Options s = Some (Suc (length (heap w))) \<and>
           heap w' = heap w @ [zero_Options, dflt]"
proof -
  have d: "deref (heap w @ [zero_Options]) (CassandraStore.Options c) = Some dflt"
    using assms(1) by (rule deref_append)
  show ?thesis
    using d
    by (auto simp: New_def NewSession_def alloc_def Let_def split: sum.splits prod.splits
        dest!: load_frame)
qed

lemma deref_fresh: "deref h (Some (Suc (length h))) = None"
  by (simp add: deref_def)

lemma deref_new: "deref (h @ [x, y]) (Some (Suc (length h))) = Some y"
  by (simp add: deref_def nth_append)

lemma deref_old: "deref h p \<noteq> None \<Longrightarrow> deref (h @ xs) p = deref h p"
  by (auto simp: deref_def nth_append split: option.splits)

lemma deref_assign_other:
  assumes "p \<noteq> Some a"
  shows "deref (assign h a v) p = deref h p"
proof (cases p)
  case None
  then show ?thesis by (simp add: deref_def)
next
  case (Some b)
  with assms have "a \<noteq> b" by auto
  then have "h[a := v] ! b = h ! b" by simp
  with Some show ?thesis by (simp add: deref_def assign_def)
qed

lemma deref_assign_same: "deref h (Some a) \<noteq> None \<Longrightarrow> deref (assign h a v) (Some a) = Some v"
  by (auto simp: deref_def assign_def split: option.splits if_splits)

text \<open>
  Claim C7. The session New returns points to an Options object of its own:
  the object holds the values of the store's defaults, it sits at an address
  that held no object before the call (so neither the store nor any session
  made earlier points to it), New leaves every object that existed as it was,
  and an assignment through the session's pointer changes the object behind
  that pointer and behind no other, the store's defaults among them.
\<close>

theorem New_options_are_a_copy:
  assumes dflt: "deref (heap w) (CassandraStore.Options c) = Some dflt"
  shows "\<exists>s w' a. New g c r n w = Some ((s, None), w') \<and> Session.Options s = Some a \<and>
           deref (heap w') (Some a) = Some dflt \<and>
           deref (heap w) (Some a) = None \<and>
           (\<forall>p. deref (heap w) p \<noteq> None \<longrightarrow> deref (heap w') p = deref (heap w) p) \<and>
           (\<forall>p v. p \<noteq> Some a \<longrightarrow> deref (assign (heap w') a v) p = deref (heap w') p) \<and>
           (\<forall>v. deref (assign (heap w') a v) (Some a) = Some v \<and>
                deref (assign (heap w') a v) (CassandraStore.Options c) = Some dflt)"
proof -
  obtain s w' where run: "New g c r n w = Some ((s, None), w')"
    and ptr: "Session.Options s = Some (Suc (length (heap w)))"
    and hp: "heap w' = heap w @ [zero_Options, dflt]"
    using New_result [OF dflt] by blast
  let ?a = "Suc (length (heap w))"
  have fresh: "deref (heap w) (Some ?a) = None"
    by (rule deref_fresh)
  have copy: "deref (heap w') (Some ?a) = Some dflt"
    unfolding hp by (rule deref_new)
  have old: "\<forall>p. deref (heap w) p \<noteq> None \<longrightarrow> deref (heap w') p = deref (heap w) p"
    unfolding hp by (simp add: deref_old)
  have other: "\<forall>p v. p \<noteq> Some ?a \<longrightarrow> deref (assign (heap w') ?a v) p = deref (heap w') p"
    by (simp add: deref_assign_other)
  have ne: "CassandraStore.Options c \<noteq> Some ?a"
    using dflt fresh by auto
  have store: "deref (assign (heap w') ?a v) (CassandraStore.Options c) = Some dflt" for v
    using other ne old dflt by simp
  have same: "deref (assign (heap w') ?a v) (Some ?a) = Some v" for v
    using copy by (simp add: deref_assign_same)
  show ?thesis
    using run ptr copy fresh old other store same by blast
qed

theorem New_options_are_a_copy_witness:
  "deref (heap ex_world) (CassandraStore.Options ex_store) = Some ex_defaults \<and>
   (\<exists>s w' a. New ex_gob ex_store ex_request_none ''sid'' ex_world = Some ((s, None), w') \<and>
      Session.Options s = Some a \<and> deref (heap w') (Some a) = Some ex_defaults \<and>
      deref (assign (heap w') a zero_Options) (Some a) = Some zero_Options \<and>
      deref (assign (heap w') a zero_Options) (CassandraStore.Options ex_store) = Some ex_defaults)"
  using New_options_are_a_copy [OF ex_store_defaults, of ex_gob ex_request_none "''sid''"]
    ex_store_defaults
  by blast

text \<open>
  Two sessions made one after the other by the same store: their options are
  two objects, and an assignment through either pointer leaves the other
  session's options and the store's defaults as they were.
\<close>

lemma New_twice:
  assumes dflt: "deref (heap w) (CassandraStore.Options c) = Some dflt"
  shows "\<exists>s1 w1 a1 s2 w2 a2.
           New g c r1 n1 w = Some ((s1, None), w1) \<and> Session.Options s1 = Some a1 \<and>
           New g c r2 n2 w1 = Some ((s2, None), w2) \<and> Session.Options s2 = Some a2 \<and>
           a1 \<noteq> a2 \<and>
           deref (assign (heap w2) a1 v) (Some a2) = Some dflt \<and>
           deref (assign (heap w2) a2 v) (Some a1) = Some dflt \<and>
           deref (assign (heap w2) a1 v) (CassandraStore.Options c) = Some dflt \<and>
           deref (assign (heap w2) a2 v) (CassandraStore.Options c) = Some dflt"
proof -
  obtain s1 w1 where run1: "New g c r1 n1 w = Some ((s1, None), w1)"
    and ptr1: "Session.Options s1 = Some (Suc (length (heap w)))"
    and hp1: "heap w1 = heap w @ [zero_Options, dflt]"
    using New_result [OF dflt] by blast
  have dflt1: "deref (heap w1) (CassandraStore.Options c) = Some dflt"
    unfolding hp1 using dflt by (rule deref_append)
  obtain s2 w2 where run2: "New g c r2 n2 w1 = Some ((s2, None), w2)"
    and ptr2: "Session.Options s2 = Some (Suc (length (heap w1)))"
    and hp2: "heap w2 = heap w1 @ [zero_Options, dflt]"
    using New_result [OF dflt1] by blast
  have "deref (assign (heap w2) (Suc (length (heap w))) v) (Some (Suc (length (heap w1)))) = Some dflt"
    "deref (assign (heap w2) (Suc (length (heap w1))) v) (Some (Suc (length (heap w)))) = Some dflt"
    "deref (assign (heap w2) (Suc (length (heap w))) v) (CassandraStore.Options c) = Some dflt"
    "deref (assign (heap w2) (Suc (length (heap w1))) v) (CassandraStore.Options c) = Some dflt"
    using dflt unfolding hp2 hp1
    by (auto simp: deref_def assign_def nth_append nth_list_update split: option.splits if_splits)
  moreover have "Suc (length (heap w)) \<noteq> Suc (length (heap w1))"
    unfolding hp1 by simp
  ultimately show ?thesis
    using run1 ptr1 run2 ptr2 by blast
qed

section \<open>Save: the generated identifier\<close>

subsection \<open>The base-32 text of a key\<close>

lemma replicate_num: "replicate (numeral k) x = x # replicate (pred_numeral k) x"
  by (simp add: numeral_eq_Suc)

text \<open>The encoder on the test vectors of RFC 4648, section 10.\<close>

lemma EncodeToString_vectors:
  "EncodeToString [] = ''''"
  "EncodeToString [0x66] = ''MY======''"
  "EncodeToString [0x66, 0x6f] = ''MZXQ====''"
  "EncodeToString [0x66, 0x6f, 0x6f] = ''MZXW6===''"
  "EncodeToString [0x66, 0x6f, 0x6f, 0x62] = ''MZXW6YQ=''"
  "EncodeToString [0x66, 0x6f, 0x6f, 0x62, 0x61] = ''MZXW6YTB''"
  "EncodeToString [0x66, 0x6f, 0x6f, 0x62, 0x61, 0x72] = ''MZXW6YTBOI======''"
  by (simp_all add: EncodeToString_def base32_body_def byte_bits_def bits_val_def encodeStd_def
      bit_numeral_simps Let_def replicate_num)

lemma length_groups5: "length (groups5 bs) = (length bs + 4) div 5"
proof (induction bs rule: groups5.induct)
  case 1
  then show ?case by simp
next
  case (2 b bs)
  have "Suc ((length bs - 4 + 4) div 5) = (Suc (length bs) + 4) div 5"
    by arith
  with 2 show ?case by simp
qed

lemma groups5_width: "g \<in> set (groups5 bs) \<Longrightarrow> length g = 5"
  by (induction bs rule: groups5.induct) auto

lemma foldl_bits_bound:
  "foldl (\<lambda>acc b. 2 * acc + (if b then 1 else 0)) (k::nat) bs < (k + 1) * 2 ^ length bs"
proof (induction bs arbitrary: k)
  case Nil
  then show ?case by simp
next
  case (Cons b bs)
  have "foldl (\<lambda>acc b. 2 * acc + (if b then 1 else 0)) (2 * k + (if b then 1 else 0)) bs
          < (2 * k + (if b then 1 else 0) + 1) * (2::nat) ^ length bs"
    by (rule Cons.IH)
  also have "\<dots> \<le> (2 * k + 2) * 2 ^ length bs"
    by simp
  finally show ?case by (simp add: algebra_simps)
qed

lemma bits_val_bound: "bits_val bs < 2 ^ length bs"
  using foldl_bits_bound [of 0 bs] by (simp add: bits_val_def)

lemma encodeStd_no_pad: "i < 32 \<Longrightarrow> encodeStd ! i \<noteq> CHR ''=''"
proof -
  assume "i < 32"
  moreover have "length encodeStd = 32"
    by (simp add: encodeStd_def)
  ultimately have "encodeStd ! i \<in> set encodeStd"
    by (simp only: nth_mem)
  moreover have "CHR ''='' \<notin> set encodeStd"
    by (simp add: encodeStd_def)
  ultimately show ?thesis by auto
qed

lemma base32_body_no_pad: "CHR ''='' \<notin> set (base32_body src)"
proof
  assume "CHR ''='' \<in> set (base32_body src)"
  then obtain g where g: "g \<in> set (groups5 (concat (map byte_bits src)))"
    and eq: "encodeStd ! bits_val g = CHR ''=''"
    by (auto simp: base32_body_def)
  have "bits_val g < 2 ^ 5"
    using bits_val_bound [of g] groups5_width [OF g] by simp
  then show False
    using encodeStd_no_pad [of "bits_val g"] eq by simp
qed

lemma length_bits: "length (concat (map byte_bits src)) = 8 * length src"
  by (induction src) (auto simp: byte_bits_def)

lemma length_base32_body: "length (base32_body src) = (8 * length src + 4) div 5"
  by (simp add: base32_body_def length_groups5 length_bits)

lemma dropWhile_absent: "c \<notin> set ys \<Longrightarrow> dropWhile (\<lambda>ch. ch = c) ys = ys"
  by (cases ys) auto

lemma TrimRight_padding:
  assumes "c \<notin> set xs"
  shows "TrimRight (xs @ replicate k c) [c] = xs"
proof -
  have "dropWhile (\<lambda>ch. ch = c) (replicate k c @ rev xs) = dropWhile (\<lambda>ch. ch = c) (rev xs)"
    by (rule dropWhile_append2) simp
  also have "\<dots> = rev xs"
    using assms by (simp add: dropWhile_absent)
  finally show ?thesis
    by (simp add: TrimRight_def)
qed

lemma TrimRight_EncodeToString: "TrimRight (EncodeToString src) ''='' = base32_body src"
  by (simp add: EncodeToString_def Let_def TrimRight_padding base32_body_no_pad)

lemma generated_ident_length:
  "length src = 32 \<Longrightarrow> length (TrimRight (EncodeToString src) ''='') = 52"
  by (simp add: TrimRight_EncodeToString length_base32_body)

lemma written_ids_append: "written_ids (xs @ ys) = written_ids xs @ written_ids ys"
  by (induction xs rule: written_ids.induct) auto

lemma save_written_ids:
  assumes "deref (heap w) (Session.Options s) = Some sopts"
      and "save g c s w = Some (e, w')"
  shows "written_ids (ops (db w')) = written_ids (ops (db w)) @
           (if connect_err (db w) = None \<and> \<not> isl (gob_Encode g (Values s)) then [ID s] else [])"
  using assms
  by (auto simp: save_def CreateSession_def Exec_def Close_def Let_def written_ids_append
      split: option.splits sum.splits)

text \<open>
  Claim C5. When the max-age is not negative, the session has no identifier
  and the entropy source gives 32 bytes, Save gives the session the base-32
  text of these bytes without its trailing \<open>=\<close> signs, 52 characters and so not
  empty, and the only insert it sends to the cluster (sent when a connection is
  made and the payload serialises) is under that identifier. Both Options
  pointers are taken to be valid, so that Save returns.
\<close>

theorem Save_generates_ident:
  assumes opts: "deref (heap w) (Session.Options s) = Some sopts"
      and age: "0 \<le> Options.MaxAge sopts"
      and dflt: "deref (heap w) (CassandraStore.Options c) = Some copts"
      and empty: "ID s = ''''"
      and rnd: "32 \<le> length (entropy w)"
  shows "\<exists>err s' rw' w'. Save g c r rw s w = Some (err, s', rw', w') \<and>
           ID s' = TrimRight (EncodeToString (take 32 (entropy w))) ''='' \<and>
           length (ID s') = 52 \<and> ID s' \<noteq> '''' \<and>
           written_ids (ops (db w')) = written_ids (ops (db w)) @
             (if connect_err (db w) = None \<and> \<not> isl (gob_Encode g (Values s))
              then [ID s'] else [])"
proof -
  let ?k = "take 32 (entropy w)"
  let ?id = "TrimRight (EncodeToString ?k) ''=''"
  obtain s1 w1 where p: "Save_prepare s w = (s1, w1)"
    by (cases "Save_prepare s w")
  note pp = Save_prepare_props [OF p]
  have id1: "ID s1 = ?id"
    using pp empty rnd by (simp add: Save_ident_def GenerateRandomKey_def)
  have len: "length ?id = 52"
    using rnd by (simp add: generated_ident_length)
  then have ne: "?id \<noteq> ''''"
    by auto
  have opts1: "deref (heap w1) (Session.Options s1) = Some sopts"
    using opts pp by simp
  obtain e w2 where sv: "save g c s1 w1 = Some (e, w2)"
    using save_total [OF opts1] by blast
  have log: "written_ids (ops (db w2)) = written_ids (ops (db w)) @
           (if connect_err (db w) = None \<and> \<not> isl (gob_Encode g (Values s)) then [?id] else [])"
    using save_written_ids [OF opts1 sv] pp id1 by simp
  have hp2: "heap w2 = heap w"
    using sv pp
    by (auto simp: save_def CreateSession_def Exec_def Close_def Let_def
        split: option.splits sum.splits prod.splits)
  have "\<exists>err rw'. Save g c r rw s w = Some (err, s1, rw', w2)"
    using opts age p sv dflt hp2
    by (auto simp: Save_unfold split: option.splits sum.splits)
  then obtain err rw' where run: "Save g c r rw s w = Some (err, s1, rw', w2)"
    by blast
  have "ID s1 = ?id \<and> length (ID s1) = 52 \<and> ID s1 \<noteq> '''' \<and>
        written_ids (ops (db w2)) = written_ids (ops (db w)) @
          (if connect_err (db w) = None \<and> \<not> isl (gob_Encode g (Values s))
           then [ID s1] else [])"
    using id1 len ne log by simp
  with run show ?thesis by blast
qed

theorem Save_generates_ident_witness:
  "deref (heap (ex_world_own 3600)) (Session.Options ex_session_fresh) =
     Some (ex_defaults\<lparr>Options.Path := ''/app'', Options.MaxAge := 3600\<rparr>) \<and>
   ID ex_session_fresh = '''' \<and> 32 \<le> length (entropy (ex_world_own 3600)) \<and>
   (\<exists>err s' rw' w'.
      Save ex_gob ex_store ex_request_none [] ex_session_fresh (ex_world_own 3600) =
        Some (err, s', rw', w') \<and>
      ID s' = TrimRight (EncodeToString (take 32 (entropy (ex_world_own 3600)))) ''='' \<and>
      length (ID s') = 52 \<and> written_ids (ops (db w')) = [ID s'])"
proof -
  have h1: "deref (heap (ex_world_own 3600)) (Session.Options ex_session_fresh) =
     Some (ex_defaults\<lparr>Options.Path := ''/app'', Options.MaxAge := 3600\<rparr>)"
    by (simp add: ex_defs op_defs)
  have h2: "0 \<le> Options.MaxAge (ex_defaults\<lparr>Options.Path := ''/app'', Options.MaxAge := 3600\<rparr>)"
    by simp
  have h3: "deref (heap (ex_world_own 3600)) (CassandraStore.Options ex_store) = Some ex_defaults"
    by (simp add: ex_defs op_defs)
  have h4: "ID ex_session_fresh = ''''"
    by (simp add: ex_defs)
  have h5: "32 \<le> length (entropy (ex_world_own 3600))"
    by (simp add: ex_defs op_defs)
  have log: "written_ids (ops (db (ex_world_own 3600))) = []"
    "connect_err (db (ex_world_own 3600)) = None"
    "\<not> isl (gob_Encode ex_gob (Values ex_session_fresh))"
    by (simp_all add: ex_defs op_defs)
  from Save_generates_ident [OF h1 h2 h3 h4 h5, of ex_gob ex_request_none "[]"] h1 h4 h5 log
  show ?thesis by auto
qed

section \<open>New: the flag IsNew after a load\<close>

text \<open>
  New sets \<open>IsNew\<close> before it looks at the cookie and clears it under one
  condition only: load returned an error and that error is not
  \<open>gocql.ErrNotFound\<close>. So the flag New returns, in terms of what load
  returned for the decoded identifier, is set exactly when load returned nil or
  that sentinel, and cleared for every other error.
\<close>

lemma New_after_load:
  assumes dflt: "deref (heap w) (CassandraStore.Options c) = Some dflt"
      and cookie: "cookie_ident c r n = Some ident"
  shows "\<exists>s0 w0 e s w'.
           ID s0 = ident \<and> Values s0 = Map.empty \<and> db w0 = db w \<and>
           load g c s0 w0 = (e, s, w') \<and>
           New g c r n w = Some ((s\<lparr>IsNew := (e = None \<or> e = Some ErrNotFound)\<rparr>, None), w')"
proof -
  have d: "deref (heap w @ [zero_Options]) (CassandraStore.Options c) = Some dflt"
    using dflt by (rule deref_append)
  let ?s0 = "\<lparr>ID = ident, Values = Map.empty, Options = Some (Suc (length (heap w))),
              IsNew = True, Name = n\<rparr> :: ('a, 'b) Session"
  let ?w0 = "w\<lparr>heap := heap w @ [zero_Options, dflt]\<rparr>"
  obtain e s w' where l: "load g c ?s0 ?w0 = (e, s, w')"
    by (cases "load g c ?s0 ?w0")
  have new: "IsNew s"
    using l by (auto simp: load_def CreateSession_def Scan_def Close_def Let_def
        split: option.splits sum.splits prod.splits)
  have "New g c r n w = Some ((s\<lparr>IsNew := (e = None \<or> e = Some ErrNotFound)\<rparr>, None), w')"
    using cookie d l new
    by (auto simp: New_def NewSession_def alloc_def cookie_ident_def Let_def split: sum.splits)
  with l show ?thesis
    by (intro exI [of _ ?s0] exI [of _ ?w0] exI [of _ e] exI [of _ s] exI [of _ w']) simp
qed

text \<open>A load that succeeds returns nil, so the flag stays set.\<close>

lemma New_loaded_stays_new:
  assumes dflt: "deref (heap w) (CassandraStore.Options c) = Some dflt"
      and cookie: "cookie_ident c r n = Some ident"
      and up: "connect_err (db w) = None" "scan_err (db w) = None"
      and row: "rows (db w) (TableName c, ident) = Some (vals, ttl)"
      and dec: "gob_Decode g vals Map.empty = (None, m)"
  shows "\<exists>s w'. New g c r n w = Some ((s, None), w') \<and> ID s = ident \<and> Values s = m \<and> IsNew s"
proof -
  have d: "deref (heap w @ [zero_Options]) (CassandraStore.Options c) = Some dflt"
    using dflt by (rule deref_append)
  show ?thesis
    using cookie d up row dec
    by (auto simp: New_def NewSession_def alloc_def cookie_ident_def load_def CreateSession_def
        Scan_def Close_def Let_def split: sum.splits)
qed

text \<open>
  Claim C1 says that a request whose cookie decodes to an identifier with a
  stored record gets the loaded session with \<open>IsNew\<close> false. The code run on
  such a request: the cookie decodes to \<open>abc\<close>, the table holds the row of
  \<open>abc\<close>, the payload is loaded, and the session comes back with \<open>IsNew\<close> true.
\<close>

theorem New_loaded_session_is_flagged_new:
  "cookie_ident ex_store ex_request_abc ''sid'' = Some ''abc'' \<and>
   rows (db ex_world) (TableName ex_store, ''abc'') = Some ([1], 3600) \<and>
   (\<exists>s w'. New ex_gob ex_store ex_request_abc ''sid'' ex_world = Some ((s, None), w') \<and>
      ID s = ''abc'' \<and> Values s = [''user'' \<mapsto> ''alice''] \<and> IsNew s)"
  by (simp add: cookie_ident_def ex_defs op_defs)

text \<open>
  A missing row makes \<open>Scan\<close> return \<open>gocql.ErrNotFound\<close>, but load hands it
  on as a new error made by \<open>fmt.Errorf\<close>, which is not the sentinel New
  compares with: the flag is cleared. The sentinel itself could reach New only
  out of the gob decoder.
\<close>

lemma New_not_found_not_new:
  assumes dflt: "deref (heap w) (CassandraStore.Options c) = Some dflt"
      and cookie: "cookie_ident c r n = Some ident"
      and up: "connect_err (db w) = None" "scan_err (db w) = None"
      and row: "rows (db w) (TableName c, ident) = None"
  shows "\<exists>s w'. New g c r n w = Some ((s, None), w') \<and> ID s = ident \<and>
           Values s = Map.empty \<and> \<not> IsNew s"
proof -
  have d: "deref (heap w @ [zero_Options]) (CassandraStore.Options c) = Some dflt"
    using dflt by (rule deref_append)
  show ?thesis
    using cookie d up row
    by (auto simp: New_def NewSession_def alloc_def cookie_ident_def load_def CreateSession_def
        Scan_def Close_def Let_def Errorf_cassandrastore_def split: sum.splits)
qed

lemma load_not_found_only_from_gob:
  assumes "load g c s w = (Some ErrNotFound, s', w')"
  shows "\<exists>vals. fst (gob_Decode g vals (Values s)) = Some ErrNotFound"
proof -
  from assms obtain vals m where "gob_Decode g vals (Values s) = (Some ErrNotFound, m)"
    by (auto simp: load_def CreateSession_def Scan_def Close_def Let_def Errorf_cassandrastore_def
        split: option.splits sum.splits prod.splits)
  then have "fst (gob_Decode g vals (Values s)) = Some ErrNotFound"
    by simp
  then show ?thesis ..
qed

text \<open>
  Claim C2 says that, the cookie decoded, a load that fails because the record
  is not found leaves \<open>IsNew\<close> true and any other load error makes it false.
  The code run on a request whose cookie decodes to \<open>xyz\<close>, an identifier
  without a row: the session comes back with \<open>IsNew\<close> false.
\<close>

theorem New_not_found_is_flagged_not_new:
  "cookie_ident ex_store ex_request_xyz ''sid'' = Some ''xyz'' \<and>
   rows (db ex_world) (TableName ex_store, ''xyz'') = None \<and>
   (\<exists>s w'. New ex_gob ex_store ex_request_xyz ''sid'' ex_world = Some ((s, None), w') \<and>
      ID s = ''xyz'' \<and> Values s = Map.empty \<and> IsNew s = False)"
  by (simp add: cookie_ident_def ex_defs op_defs)

section \<open>Save: the options of the cookie\<close>

lemma save_succeeds:
  assumes "deref (heap w) (Session.Options s) = Some sopts" and "\<not> write_fails g s w"
  shows "\<exists>w'. save g c s w = Some (None, w') \<and> heap w' = heap w"
  using assms
  by (auto simp: save_def write_fails_def CreateSession_def Exec_def Close_def Let_def isl_def
      split: option.splits sum.splits)

text \<open>
  After a successful write and encoding the cookie is built from
  \<open>c.Options\<close>, the defaults of the store, whatever the session's own options
  are; the branch for a negative max-age and the time-to-live of the row use
  \<open>s.Options\<close>.
\<close>

lemma Save_cookie_from_store_options:
  assumes opts: "deref (heap w) (Session.Options s) = Some sopts"
      and age: "0 \<le> Options.MaxAge sopts"
      and dflt: "deref (heap w) (CassandraStore.Options c) = Some copts"
      and ok: "\<not> write_fails g s w" "\<not> encoding_fails c s w"
  shows "\<exists>s' ck w'. Save g c r rw s w = Some (None, s', rw @ [ck], w') \<and>
           http_Cookie.Path ck = Options.Path copts \<and>
           http_Cookie.MaxAge ck = Options.MaxAge copts"
proof -
  obtain s1 w1 where p: "Save_prepare s w = (s1, w1)"
    by (cases "Save_prepare s w")
  note pp = Save_prepare_props [OF p]
  have opts1: "deref (heap w1) (Session.Options s1) = Some sopts"
    using opts pp by simp
  have "\<not> write_fails g s1 w1"
    using ok(1) pp by (simp add: write_fails_def)
  then obtain w2 where sv: "save g c s1 w1 = Some (None, w2)" and hp: "heap w2 = heap w1"
    using save_succeeds [OF opts1] by blast
  obtain encoded where enc: "EncodeMulti (Codecs c) (Session.Name s1) (ID s1) = Inr encoded"
    using ok(2) pp by (cases "EncodeMulti (Codecs c) (Session.Name s1) (ID s1)")
      (auto simp: encoding_fails_def)
  show ?thesis
    using opts age p sv enc dflt hp pp
    by (simp add: Save_unfold SetCookie_def NewCookie_def)
qed

text \<open>
  Claim C3 says that the cookie of a successful Save carries the session's own
  path and max-age. The code run on a session whose own options are path
  \<open>/app\<close> and max-age 3600: the row is written with time-to-live 3600, and
  the cookie carries path \<open>/\<close> and max-age 2592000, the store's defaults.
\<close>

theorem Save_cookie_has_store_options:
  "deref (heap (ex_world_own 3600)) (Session.Options ex_session) =
     Some (ex_defaults\<lparr>Options.Path := ''/app'', Options.MaxAge := 3600\<rparr>) \<and>
   (\<exists>s' ck w'. Save ex_gob ex_store ex_request_abc [] ex_session (ex_world_own 3600) =
        Some (None, s', [ck], w') \<and>
      Value ck = ''sid|abc'' \<and> http_Cookie.Path ck = ''/'' \<and> http_Cookie.MaxAge ck = 2592000 \<and>
      rows (db w') (''sessions'', ''abc'') = Some ([1], 3600))"
  by (simp add: ex_defs op_defs)

end
